theory Spec2Isabelle
  imports Main
begin

section \<open>JavaScript values\<close>

text \<open>
  The pipe module is generic in the payload type and decides at run time whether a
  callback's return is a result wrapper (\<open>isPipeResult\<close>), so values are modelled
  dynamically. A number is an integer that a double holds with its decimal digits as
  its shortest form (every integer up to \<open>2^53\<close> is one; no fractions, no NaN).
  \<open>JError m\<close> is \<open>new Error(m)\<close> and \<open>JTypeError m\<close> a \<open>TypeError\<close> with
  message \<open>m\<close>, as the runtime raises them. A plain object is an association list read
  by key (the first binding of a key is the property; the order of the list carries no
  meaning); its prototype is \<open>Object.prototype\<close>. A promise is given by the way it
  settles. Functions are not values, so no property of an object can be called, and the
  only thenable is a promise.
\<close>

datatype 'a settle = Resolved 'a | Rejected 'a | Pending

datatype jsval =
    JUndefined
  | JNull
  | JBool bool
  | JNum int
  | JStr string
  | JError string
  | JTypeError string
  | JObject "(string \<times> jsval) list"
  | JPromise "jsval settle"

text \<open>Truthiness, as \<open>if (x)\<close>, \<open>x && y\<close> and \<open>!x\<close> read a value.\<close>

fun truthy :: "jsval \<Rightarrow> bool" where
  "truthy JUndefined = False"
| "truthy JNull = False"
| "truthy (JBool b) = b"
| "truthy (JNum n) = (n \<noteq> 0)"
| "truthy (JStr s) = (s \<noteq> [])"
| "truthy (JError m) = True"
| "truthy (JTypeError m) = True"
| "truthy (JObject kvs) = True"
| "truthy (JPromise s) = True"

fun nullish :: "jsval \<Rightarrow> bool" where
  "nullish JUndefined = True"
| "nullish JNull = True"
| "nullish v = False"

text \<open>\<open>e instanceof Error\<close>\<close>

fun instanceofError :: "jsval \<Rightarrow> bool" where
  "instanceofError (JError m) = True"
| "instanceofError (JTypeError m) = True"
| "instanceofError v = False"

text \<open>
  \<open>o.k\<close> on a value that is neither \<open>undefined\<close> nor \<open>null\<close> (there the read
  throws a TypeError, which every caller below handles before reading). Of the keys
  this module reads (\<open>value\<close>, \<open>stopped\<close>, \<open>error\<close>, \<open>metadata\<close>,
  \<open>debugName\<close>, \<open>message\<close>) a primitive and a promise have none and an Error has
  \<open>message\<close>.
\<close>

fun getProp :: "jsval \<Rightarrow> string \<Rightarrow> jsval" where
  "getProp (JObject kvs) k = (case map_of kvs k of Some v \<Rightarrow> v | None \<Rightarrow> JUndefined)"
| "getProp (JError m) k = (if k = ''message'' then JStr m else JUndefined)"
| "getProp (JTypeError m) k = (if k = ''message'' then JStr m else JUndefined)"
| "getProp v k = JUndefined"

text \<open>
  The \<open>in\<close> operator on an object, for a key that the prototypes do not define; the
  module asks for \<open>"value"\<close> only.
\<close>

fun hasProp :: "string \<Rightarrow> jsval \<Rightarrow> bool" where
  "hasProp k (JObject kvs) = (k \<in> fst ` set kvs)"
| "hasProp k (JError m) = (k = ''message'')"
| "hasProp k (JTypeError m) = (k = ''message'')"
| "hasProp k v = False"

text \<open>Decimal digits of an integer that is not negative.\<close>

function showDigits :: "int \<Rightarrow> string" where
  "showDigits n =
     (if n < 10 then [char_of (48 + n)]
      else showDigits (n div 10) @ [char_of (48 + n mod 10)])"
  by pat_completeness auto
termination
  by (relation "measure (\<lambda>n. nat n)") auto

text \<open>
  Own enumerable properties, as the spread \<open>{...x}\<close> copies them: those of a plain
  object, the characters of a string under their indices, none of any other value.
\<close>

fun ownProps :: "jsval \<Rightarrow> (string \<times> jsval) list" where
  "ownProps (JObject kvs) = kvs"
| "ownProps (JStr s) =
     zip (map (\<lambda>i. showDigits (int i)) [0..<length s]) (map (\<lambda>c. JStr [c]) s)"
| "ownProps v = []"

text \<open>
  Writing a key into an object literal under construction: a key already present keeps
  its place and takes the new value, a new key goes last.
\<close>

fun setKey :: "string \<Rightarrow> jsval \<Rightarrow> (string \<times> jsval) list \<Rightarrow> (string \<times> jsval) list" where
  "setKey k v [] = [(k, v)]"
| "setKey k v ((k', v') # kvs) = (if k = k' then (k, v) # kvs else (k', v') # setKey k v kvs)"

text \<open>\<open>{...a, ...b}\<close> on property lists: the keys of \<open>b\<close> written into \<open>a\<close> in turn.\<close>

definition spread :: "(string \<times> jsval) list \<Rightarrow> (string \<times> jsval) list \<Rightarrow> (string \<times> jsval) list" where
  "spread a b = fold (\<lambda>(k, v) acc. setKey k v acc) b a"

text \<open>
  \<open>String(n)\<close> of a number: the digits below \<open>10^21\<close>, from there on the
  exponent form (\<open>1e+21\<close>, \<open>1.5e+21\<close>): first digit, the other significant
  digits after a point, the exponent.
\<close>

definition exponentForm :: "string \<Rightarrow> string" where
  "exponentForm ds =
     (case rev (dropWhile (\<lambda>c. c = CHR ''0'') (rev ds)) of
        [] \<Rightarrow> []
      | [d] \<Rightarrow> [d]
      | d # rest \<Rightarrow> d # CHR ''.'' # rest)
     @ ''e+'' @ showDigits (int (length ds) - 1)"

definition showNum :: "int \<Rightarrow> string" where
  "showNum n =
     (let m = \<bar>n\<bar>;
          body = (if m < 10 ^ 21 then showDigits m else exponentForm (showDigits m))
      in if n < 0 then ''-'' @ body else body)"

text \<open>
  \<open>String(x)\<close>, also what a template literal applies to an embedded value: the string,
  or (\<open>Inl\<close>) the TypeError it throws. An object is converted by its \<open>toString\<close>,
  then its \<open>valueOf\<close>. For a plain object without a key \<open>toString\<close> that is
  \<open>Object.prototype.toString\<close>. An own \<open>toString\<close> is not callable here, and
  \<open>valueOf\<close>, own or inherited, then gives no primitive either, so the conversion
  throws. The message of a TypeError is the engine's (here as V8 words it).
\<close>

definition cannotConvert :: jsval where
  "cannotConvert = JTypeError ''Cannot convert object to primitive value''"

fun toStr :: "jsval \<Rightarrow> jsval + string" where
  "toStr JUndefined = Inr ''undefined''"
| "toStr JNull = Inr ''null''"
| "toStr (JBool b) = Inr (if b then ''true'' else ''false'')"
| "toStr (JNum n) = Inr (showNum n)"
| "toStr (JStr s) = Inr s"
| "toStr (JError m) = Inr (if m = [] then ''Error'' else ''Error: '' @ m)"
| "toStr (JTypeError m) = Inr (if m = [] then ''TypeError'' else ''TypeError: '' @ m)"
| "toStr (JObject kvs) =
     (if ''toString'' \<in> fst ` set kvs then Inl cannotConvert else Inr ''[object Object]'')"
| "toStr (JPromise s) = Inr ''[object Promise]''"

text \<open>
  \<open>e instanceof Error ? e : new Error(String(e))\<close>: the Error, or (\<open>Inl\<close>) what
  \<open>String(e)\<close> throws.
\<close>

definition toError :: "jsval \<Rightarrow> jsval + jsval" where
  "toError e =
     (if instanceofError e then Inr e
      else case toStr e of Inl t \<Rightarrow> Inl t | Inr s \<Rightarrow> Inr (JError s))"

section \<open>Core types\<close>

text \<open>
  A call of a user function or of an operator either throws a value or returns one, and
  may change the world outside the pipe (a closure's counter, a log, the console): the
  world \<open>'w\<close> is passed in and returned.
\<close>

datatype outcome = Throw jsval | Return jsval

type_synonym 'w callback = "jsval \<Rightarrow> 'w \<Rightarrow> outcome \<times> 'w"

record PipeContext =
  ctx_value :: jsval
  ctx_stopped :: bool
  ctx_error :: jsval
  ctx_metadata :: "(string \<times> jsval) list"
  ctx_index :: nat
  ctx_total :: nat

text \<open>
  \<open>Operator<T, R> = (value: T, context?: PipeContext<T>) => PipeResult<R>\<close>.
  An operator reads the context it is handed; none of the module's operators assigns to
  it, and the model gives an operator no way to.
\<close>

type_synonym 'w operator = "jsval \<Rightarrow> PipeContext \<Rightarrow> 'w \<Rightarrow> outcome \<times> 'w"

datatype errorHandling = Stop | Continue | Retry

text \<open>\<open>PipeConfig\<close>: every field is optional, \<open>None\<close> is an absent key.\<close>

record PipeConfig =
  debug :: "bool option"
  errorHandling :: "errorHandling option"
  maxRetries :: "int option"

record 'w Pipe =
  pipe_context :: PipeContext
  pipe_operators :: "'w operator list"
  pipe_config :: PipeConfig

section \<open>The Pipe class\<close>

text \<open>The empty configuration object \<open>{}\<close>, the default of the constructor.\<close>

definition noConfig :: PipeConfig where
  "noConfig = \<lparr>debug = None, errorHandling = None, maxRetries = None\<rparr>"

text \<open>
  \<open>{ debug: false, errorHandling: "stop", maxRetries: 3, ...config }\<close>: a key of
  \<open>config\<close> overrides the default. A key given with the value \<open>undefined\<close> is
  not told apart from an absent one here.
\<close>

definition mergeConfig :: "PipeConfig \<Rightarrow> PipeConfig" where
  "mergeConfig config =
     \<lparr>debug = Some (case debug config of None \<Rightarrow> False | Some b \<Rightarrow> b),
      errorHandling = Some (case errorHandling config of None \<Rightarrow> Stop | Some p \<Rightarrow> p),
      maxRetries = Some (case maxRetries config of None \<Rightarrow> 3 | Some n \<Rightarrow> n)\<rparr>"

definition newPipe :: "jsval \<Rightarrow> PipeConfig \<Rightarrow> 'w Pipe" where
  "newPipe initialValue config =
     \<lparr>pipe_context =
        \<lparr>ctx_value = initialValue, ctx_stopped = False, ctx_error = JUndefined,
         ctx_metadata = [], ctx_index = 0, ctx_total = 0\<rparr>,
      pipe_operators = [],
      pipe_config = mergeConfig config\<rparr>"

definition createPipe :: "jsval \<Rightarrow> PipeConfig \<Rightarrow> 'w Pipe" where
  "createPipe v config = newPipe v config"

text \<open>\<open>pipe(...operator)\<close>: a new pipe, the operators appended, \<open>this\<close> untouched.\<close>

definition pipe :: "'w Pipe \<Rightarrow> 'w operator list \<Rightarrow> 'w Pipe" where
  "pipe this operator =
     (let made = newPipe (ctx_value (pipe_context this)) (pipe_config this) in
      made\<lparr>pipe_operators := pipe_operators this @ operator,
            pipe_context := (pipe_context this)\<lparr>ctx_value := ctx_value (pipe_context this),
                                              ctx_total := length (pipe_operators this) + 1\<rparr>\<rparr>)"

text \<open>
  The \<open>catch\<close> clause of \<open>execute\<close>: the thrown value, made an Error, becomes the
  context's error; of the three policies only \<open>"stop"\<close> sets \<open>stopped\<close> (its
  case falls through to the \<open>break\<close> of the other two). The clause stands in no
  \<open>try\<close>: when \<open>String(error)\<close> throws, that TypeError leaves \<open>execute\<close>
  (\<open>Inl\<close>).
\<close>

definition catchClause :: "PipeConfig \<Rightarrow> jsval \<Rightarrow> PipeContext \<Rightarrow> jsval + PipeContext" where
  "catchClause config e ctx =
     (case toError e of
        Inl t \<Rightarrow> Inl t
      | Inr err \<Rightarrow>
          (let ctx1 = ctx\<lparr>ctx_error := err\<rparr>
           in case errorHandling config of
                Some Stop \<Rightarrow> Inr (ctx1\<lparr>ctx_stopped := True\<rparr>)
              | Some Continue \<Rightarrow> Inr ctx1
              | Some Retry \<Rightarrow> Inr ctx1
              | None \<Rightarrow> Inr ctx1))"

text \<open>
  The TypeError of reading \<open>result.value\<close> when an operator returned \<open>undefined\<close>
  or \<open>null\<close>.
\<close>

fun readOfNullish :: "jsval \<Rightarrow> jsval" where
  "readOfNullish JNull = JTypeError ''Cannot read properties of null (reading 'value')''"
| "readOfNullish v = JTypeError ''Cannot read properties of undefined (reading 'value')''"

text \<open>
  One turn of the \<open>for\<close> loop of \<open>execute\<close>, on the loop's variables
  \<open>(currentValue, currentContext)\<close> and the world: the variables after the turn, or
  (\<open>Inl\<close>) the value that leaves \<open>execute\<close> thrown, with the world at that moment.
  The operator is called first, whatever the context says; \<open>stopped\<close> is looked at
  after the call, when the result is in hand. The console lines of the loop are not part
  of the model. \<open>mergeResult\<close> is the tail of the \<open>try\<close> block: the result's error
  and metadata go into the context.
\<close>

definition mergeResult :: "PipeConfig \<Rightarrow> jsval \<Rightarrow> PipeContext \<Rightarrow> PipeContext" where
  "mergeResult config result currentContext =
     (let ctx1 =
            (if truthy (getProp result ''error'')
             then (if errorHandling config = Some Stop
                   then currentContext\<lparr>ctx_error := getProp result ''error'',
                                       ctx_stopped := True\<rparr>
                   else currentContext\<lparr>ctx_error := getProp result ''error''\<rparr>)
             else currentContext)
      in if truthy (getProp result ''metadata'')
         then ctx1\<lparr>ctx_metadata :=
                     spread (ctx_metadata ctx1) (ownProps (getProp result ''metadata''))\<rparr>
         else ctx1)"

text \<open>The \<open>catch\<close> clause within a turn: the value stays, the context is the clause's.\<close>

definition caught ::
  "PipeConfig \<Rightarrow> jsval \<Rightarrow> jsval \<Rightarrow> PipeContext \<Rightarrow> 'w \<Rightarrow> (jsval \<times> 'w) + (jsval \<times> PipeContext \<times> 'w)" where
  "caught config e currentValue currentContext w =
     (case catchClause config e currentContext of
        Inl t \<Rightarrow> Inl (t, w)
      | Inr ctx' \<Rightarrow> Inr (currentValue, ctx', w))"

definition loopBody ::
  "PipeConfig \<Rightarrow> 'w operator \<Rightarrow> nat \<Rightarrow> jsval \<times> PipeContext \<times> 'w
     \<Rightarrow> (jsval \<times> 'w) + (jsval \<times> PipeContext \<times> 'w)" where
  "loopBody config op i s =
     (case s of (currentValue, ctx0, w) \<Rightarrow>
        (let currentContext = ctx0\<lparr>ctx_index := i\<rparr>;
             oldValue = currentValue
         in (case op currentValue currentContext w of
               (Throw e, w') \<Rightarrow> caught config e currentValue currentContext w'
             | (Return result, w') \<Rightarrow>
                 if nullish result
                 then caught config (readOfNullish result) currentValue currentContext w'
                 else if ctx_stopped currentContext \<or> truthy (getProp result ''stopped'')
                 then Inr (oldValue, currentContext\<lparr>ctx_stopped := True\<rparr>, w')
                 else Inr (getProp result ''value'',
                           mergeResult config result currentContext, w'))))"

text \<open>The loop over \<open>this.operators\<close>, from index \<open>i\<close>; a throw ends it.\<close>

fun runFrom ::
  "PipeConfig \<Rightarrow> 'w operator list \<Rightarrow> nat \<Rightarrow> jsval \<times> PipeContext \<times> 'w
     \<Rightarrow> (jsval \<times> 'w) + (jsval \<times> PipeContext \<times> 'w)" where
  "runFrom config [] i s = Inr s"
| "runFrom config (op # ops) i s =
     (case loopBody config op i s of
        Inl t \<Rightarrow> Inl t
      | Inr s' \<Rightarrow> runFrom config ops (Suc i) s')"

text \<open>The loop's variables at the start of \<open>execute\<close>.\<close>

definition startState :: "'w Pipe \<Rightarrow> 'w \<Rightarrow> jsval \<times> PipeContext \<times> 'w" where
  "startState this w = (ctx_value (pipe_context this), pipe_context this, w)"

text \<open>
  \<open>execute()\<close>: it returns the result object, or throws what left the loop.
\<close>

definition execute :: "'w Pipe \<Rightarrow> 'w \<Rightarrow> outcome \<times> 'w" where
  "execute this w =
     (case runFrom (pipe_config this) (pipe_operators this) 0 (startState this w) of
        Inl (e, w') \<Rightarrow> (Throw e, w')
      | Inr (currentValue, currentContext, w') \<Rightarrow>
          (Return (JObject
             [(''value'', currentValue),
              (''stopped'', JBool (ctx_stopped currentContext)),
              (''error'', ctx_error currentContext),
              (''metadata'', JObject (ctx_metadata currentContext))]), w'))"

text \<open>
  \<open>value()\<close>, here \<open>valueOf\<close> (\<open>value\<close> is a command of Isabelle): the returned
  value, the world, and the line \<open>value()\<close> itself writes to the console
  (\<open>console.log("error", result.error.message)\<close>), if any. It calls \<open>execute()\<close>
  outside any \<open>try\<close>.
\<close>

definition valueOf :: "'w Pipe \<Rightarrow> 'w \<Rightarrow> outcome \<times> 'w \<times> jsval list option" where
  "valueOf this w =
     (case execute this w of
        (Throw e, w') \<Rightarrow> (Throw e, w', None)
      | (Return result, w') \<Rightarrow>
          if truthy (getProp result ''error'') \<and> errorHandling (pipe_config this) = Some Stop
          then (Return JUndefined, w',
                Some [JStr ''error'', getProp (getProp result ''error'') ''message''])
          else (Return (getProp result ''value''), w', None))"

text \<open>
  \<open>toPromise()\<close>: how the promise of the \<open>async\<close> method settles. A throw in its
  body rejects it; a returned value resolves it, and a returned promise hands its own
  outcome on (\<open>adopt\<close>).
\<close>

fun adopt :: "jsval \<Rightarrow> jsval settle" where
  "adopt (JPromise s) = s"
| "adopt v = Resolved v"

definition toPromise :: "'w Pipe \<Rightarrow> 'w \<Rightarrow> jsval settle \<times> 'w" where
  "toPromise this w =
     (case execute this w of
        (Throw e, w') \<Rightarrow> (Rejected e, w')
      | (Return result, w') \<Rightarrow>
          if truthy (getProp result ''error'')
          then (Rejected (getProp result ''error''), w')
          else (adopt (getProp result ''value''), w'))"

section \<open>Utility functions\<close>

text \<open>\<open>typeof v === "object"\<close>\<close>

fun typeofObject :: "jsval \<Rightarrow> bool" where
  "typeofObject JNull = True"
| "typeofObject (JError m) = True"
| "typeofObject (JTypeError m) = True"
| "typeofObject (JObject kvs) = True"
| "typeofObject (JPromise s) = True"
| "typeofObject v = False"

definition isPipeResult :: "jsval \<Rightarrow> bool" where
  "isPipeResult v = (truthy v \<and> typeofObject v \<and> hasProp ''value'' v)"

text \<open>\<open>pipeResult(value, options) = { value, ...options }\<close>\<close>

definition pipeResult :: "jsval \<Rightarrow> (string \<times> jsval) list \<Rightarrow> jsval" where
  "pipeResult v options = JObject (spread [(''value'', v)] options)"

definition stop :: "jsval \<Rightarrow> jsval" where
  "stop v = pipeResult v [(''stopped'', JBool True), (''debugName'', JStr ''stop'')]"

text \<open>\<open>error(value, error)\<close>: the result, or what \<open>String(error)\<close> throws.\<close>

definition error :: "jsval \<Rightarrow> jsval \<Rightarrow> jsval + jsval" where
  "error v e =
     (case toError e of
        Inl t \<Rightarrow> Inl t
      | Inr err \<Rightarrow> Inr (pipeResult v [(''error'', err), (''debugName'', JStr ''error'')]))"

definition metadata :: "jsval \<Rightarrow> jsval \<Rightarrow> jsval" where
  "metadata v md = pipeResult v [(''metadata'', md), (''debugName'', JStr ''metadata'')]"

section \<open>Basic operators\<close>

text \<open>
  Each factory takes the user's function and gives the operator. A throw of the user's
  function leaves the operator as it is: no operator has a \<open>try\<close> of its own. So
  does the TypeError of a template literal whose \<open>debugName\<close> cannot be made a
  string. \<open>map\<close> and \<open>filter\<close> are \<open>map_op\<close> and \<open>filter_op\<close> here, the plain
  names being those of the list functions.
\<close>

definition map_op :: "'w callback \<Rightarrow> 'w operator" where
  "map_op transform = (\<lambda>v context w.
     case transform v w of
       (Throw e, w') \<Rightarrow> (Throw e, w')
     | (Return res, w') \<Rightarrow>
         if isPipeResult res
         then (case toStr (getProp res ''debugName'') of
                 Inl t \<Rightarrow> (Throw t, w')
               | Inr name \<Rightarrow>
                   (Return (JObject (spread (ownProps res)
                      [(''debugName'', JStr (''map / '' @ name))])), w'))
         else (Return (pipeResult res [(''debugName'', JStr ''map'')]), w'))"

definition filter_op :: "'w callback \<Rightarrow> 'w operator" where
  "filter_op predicate = (\<lambda>v context w.
     case predicate v w of
       (Throw e, w') \<Rightarrow> (Throw e, w')
     | (Return res, w') \<Rightarrow>
         if isPipeResult res \<and> truthy (getProp res ''value'')
         then (Return (pipeResult v [(''debugName'', JStr ''filter'')]), w')
         else (Return (JObject (spread (ownProps (stop v))
                 [(''debugName'', JStr ''filter / stop'')])), w'))"


text \<open>
  \<open>catchError(handler?)\<close>: the handler is optional and is called with the value only.
\<close>

definition catchError :: "'w callback option \<Rightarrow> 'w operator" where
  "catchError handler = (\<lambda>v context w.
     if \<not> truthy (ctx_error context)
     then (Return (pipeResult v [(''debugName'', JStr ''catchError / no error'')]), w)
     else case handler of
       None \<Rightarrow>
         (Return (pipeResult v [(''debugName'', JStr ''catchError''),
                                (''error'', JUndefined), (''stopped'', JBool False)]), w)
     | Some h \<Rightarrow>
         (case h v w of
            (Throw e, w') \<Rightarrow> (Throw e, w')
          | (Return res, w') \<Rightarrow>
              if isPipeResult res
              then (case toStr (getProp res ''debugName'') of
                      Inl t \<Rightarrow> (Throw t, w')
                    | Inr name \<Rightarrow>
                        (Return (pipeResult (getProp res ''value'') (spread (ownProps res)
                           [(''debugName'', JStr (''catchError / '' @ name))])), w'))
              else (Return (pipeResult res [(''debugName'', JStr ''catchError''),
                                            (''error'', JUndefined),
                                            (''stopped'', JBool False)]), w')))"

definition throwError :: "string \<Rightarrow> 'w operator" where
  "throwError e = (\<lambda>v context w.
     case error v (JStr e) of
       Inl t \<Rightarrow> (Throw t, w)
     | Inr res \<Rightarrow>
         (Return (JObject (spread (ownProps res) [(''debugName'', JStr ''throwError'')])), w))"

text \<open>\<open>retry(times = 3)\<close>: the body does not read \<open>times\<close> (\<open>ntimes\<close> here).\<close>

definition retry :: "int \<Rightarrow> 'w operator" where
  "retry ntimes = (\<lambda>v context w. (Return (pipeResult v [(''debugName'', JStr ''retry'')]), w))"

section \<open>PipeManagerImpl (pipe-operators.ts)\<close>

text \<open>
  The manager holds a context and nothing else: no operator it applied is kept.
  \<open>metadata\<close> is optional there.
\<close>

record ManagerContext =
  mc_value :: jsval
  mc_stopped :: bool
  mc_error :: jsval
  mc_metadata :: "(string \<times> jsval) list option"

definition manager_createPipe :: "jsval \<Rightarrow> ManagerContext" where
  "manager_createPipe v =
     \<lparr>mc_value = v, mc_stopped = False, mc_error = JUndefined, mc_metadata = None\<rparr>"

text \<open>
  \<open>PipeManagerImpl.map(operator)\<close>, with its \<open>try\<close>/\<open>catch\<close>: the new
  manager's context, or (\<open>Inl\<close>) what \<open>String(error)\<close> throws in the \<open>catch\<close>.
\<close>

definition manager_map ::
  "ManagerContext \<Rightarrow> 'w callback \<Rightarrow> 'w \<Rightarrow> (jsval + ManagerContext) \<times> 'w" where
  "manager_map c operator w =
     (if mc_stopped c \<or> truthy (mc_error c)
      then (Inr \<lparr>mc_value = mc_value c, mc_stopped = mc_stopped c, mc_error = mc_error c,
                 mc_metadata = None\<rparr>, w)
      else case operator (mc_value c) w of
             (Return result, w') \<Rightarrow>
               (Inr \<lparr>mc_value = result, mc_stopped = False, mc_error = JUndefined,
                     mc_metadata = mc_metadata c\<rparr>, w')
           | (Throw e, w') \<Rightarrow>
               (case toError e of
                  Inl t \<Rightarrow> (Inl t, w')
                | Inr err \<Rightarrow>
                    (Inr \<lparr>mc_value = mc_value c, mc_stopped = True, mc_error = err,
                          mc_metadata = None\<rparr>, w')))"

text \<open>\<open>PipeManagerImpl.retry(times)\<close>\<close>

function manager_retry :: "ManagerContext \<Rightarrow> int \<Rightarrow> ManagerContext" where
  "manager_retry c ntimes =
     (if mc_stopped c \<and> truthy (mc_error c) \<and> ntimes > 0
      then manager_retry (c\<lparr>mc_stopped := False, mc_error := JUndefined\<rparr>) (ntimes - 1)
      else c)"
  by pat_completeness auto
termination
  by (relation "measure (\<lambda>(c, ntimes). nat ntimes)") auto

section \<open>User functions of the examples\<close>

text \<open>An arrow function without effects: it returns \<open>f v\<close> and leaves the world alone.\<close>

definition pureFn :: "(jsval \<Rightarrow> jsval) \<Rightarrow> 'w callback" where
  "pureFn f = (\<lambda>v w. (Return (f v), w))"

text \<open>
  \<open>x => x * 2\<close>, \<open>x => x + 1\<close> and \<open>x => x > 10\<close> on a number. The examples apply
  them to numbers only; the second equation of each only makes the function total.
\<close>

fun timesTwo :: "jsval \<Rightarrow> jsval" where
  "timesTwo (JNum n) = JNum (n * 2)"
| "timesTwo v = JUndefined"

fun plusOne :: "jsval \<Rightarrow> jsval" where
  "plusOne (JNum n) = JNum (n + 1)"
| "plusOne v = JUndefined"

fun greaterThanTen :: "jsval \<Rightarrow> jsval" where
  "greaterThanTen (JNum n) = JBool (n > 10)"
| "greaterThanTen v = JBool False"

text \<open>\<open>() => { throw new Error("boom") }\<close>\<close>

definition boom :: "'w callback" where
  "boom = (\<lambda>v w. (Throw (JError ''boom''), w))"


text \<open>
  A function that counts its calls in the world, throws on the first call and returns
  its argument on every later one.
\<close>

definition flaky :: "nat callback" where
  "flaky = (\<lambda>v w. if w = 0 then (Throw (JError ''boom''), Suc w) else (Return v, Suc w))"

text \<open>\<open>() => 42\<close>, a handler for \<open>catchError\<close>.\<close>

definition fortyTwo :: "jsval \<Rightarrow> jsval" where
  "fortyTwo v = JNum 42"

text \<open>\<open>{ errorHandling: "retry", maxRetries: 3 }\<close> and \<open>{ errorHandling: "continue" }\<close>\<close>

definition retryConfig :: PipeConfig where
  "retryConfig = \<lparr>debug = None, errorHandling = Some Retry, maxRetries = Some 3\<rparr>"

definition continueConfig :: PipeConfig where
  "continueConfig = \<lparr>debug = None, errorHandling = Some Continue, maxRetries = None\<rparr>"

text \<open>\<open>() => { throw e }\<close> and \<open>async () => { throw new Error("boom") }\<close>\<close>

definition throwing :: "jsval \<Rightarrow> 'w callback" where
  "throwing e = (\<lambda>v w. (Throw e, w))"

definition asyncBoom :: "'w callback" where
  "asyncBoom = (\<lambda>v w. (Return (JPromise (Rejected (JError ''boom''))), w))"

section \<open>Notions of the specification\<close>

text \<open>
  A pure, non-stopping operator with value function \<open>f\<close>: on every value, context and
  world it returns a result object whose value is \<open>f v\<close>, with neither \<open>stopped\<close>
  nor \<open>error\<close> set, and it leaves the world as it was.
\<close>

definition pureNonStopping :: "'w operator \<Rightarrow> (jsval \<Rightarrow> jsval) \<Rightarrow> bool" where
  "pureNonStopping op f =
     (\<forall>v c w. \<exists>r. op v c w = (Return r, w) \<and> \<not> nullish r \<and> getProp r ''value'' = f v \<and>
        \<not> truthy (getProp r ''stopped'') \<and> \<not> truthy (getProp r ''error''))"

text \<open>
  An operator whose throws the \<open>catch\<close> clause can hold: whatever it throws is an Error
  or a value \<open>String\<close> converts.
\<close>

definition throwsConvertible :: "'w operator \<Rightarrow> bool" where
  "throwsConvertible op =
     (\<forall>v c w e w'. op v c w = (Throw e, w') \<longrightarrow> (\<exists>err. toError e = Inr err))"


section \<open>Facts about the loop\<close>

text \<open>The loop over a chain cut in two.\<close>

lemma runFrom_append:
  "runFrom config (xs @ ys) i s =
     (case runFrom config xs i s of
        Inl t \<Rightarrow> Inl t
      | Inr s' \<Rightarrow> runFrom config ys (i + length xs) s')"
  by (induction xs arbitrary: i s) (simp_all split: sum.splits)

text \<open>The one value the conversions throw, and what they give otherwise.\<close>

lemma toStr_Inl: "toStr e = Inl t \<Longrightarrow> t = cannotConvert"
  by (cases e) (simp_all split: if_splits)

lemma toError_Inl: "toError e = Inl t \<Longrightarrow> t = cannotConvert"
  by (auto simp: toError_def split: if_splits sum.splits dest: toStr_Inl)

lemma truthy_toError: "toError e = Inr err \<Longrightarrow> truthy err"
  by (cases e) (auto simp: toError_def split: if_splits sum.splits)


lemma toError_readOfNullish: "toError (readOfNullish r) = Inr (readOfNullish r)"
  by (cases r) (simp_all add: toError_def)

text \<open>The \<open>catch\<close> clause on a thrown value that can be made an Error, and when it cannot.\<close>

lemma catchClause_Inr:
  assumes "toError e = Inr err"
  shows "catchClause config e ctx =
           Inr (ctx\<lparr>ctx_error := err,
                    ctx_stopped := (ctx_stopped ctx \<or> errorHandling config = Some Stop)\<rparr>)"
  using assms
  by (cases "errorHandling config"; cases "the (errorHandling config)")
     (simp_all add: catchClause_def Let_def)

lemma catchClause_Inl: "catchClause config e ctx = Inl t \<Longrightarrow> t = cannotConvert"
  by (auto simp: catchClause_def Let_def split: sum.splits option.splits errorHandling.splits
      dest: toError_Inl)

lemma caught_Inr:
  assumes "toError e = Inr err"
  shows "caught config e v ctx w =
           Inr (v, ctx\<lparr>ctx_error := err,
                       ctx_stopped := (ctx_stopped ctx \<or> errorHandling config = Some Stop)\<rparr>, w)"
  using catchClause_Inr [OF assms, of config ctx] by (simp add: caught_def)

lemma caught_Inl: "caught config e v ctx w = Inl (t, w') \<Longrightarrow> t = cannotConvert"
  by (auto simp: caught_def split: sum.splits dest: catchClause_Inl)

lemma caught_shape:
  "caught config e v ctx w = Inr (v', ctx', w') \<Longrightarrow>
     v' = v \<and> w' = w \<and> truthy (ctx_error ctx') \<and>
     ctx_stopped ctx' = (ctx_stopped ctx \<or> errorHandling config = Some Stop)"
proof -
  assume a: "caught config e v ctx w = Inr (v', ctx', w')"
  then obtain err where e: "toError e = Inr err"
    by (cases "toError e") (auto simp: caught_def catchClause_def)
  from a caught_Inr [OF e, of config v ctx w] truthy_toError [OF e] show ?thesis by auto
qed

text \<open>Whatever leaves the loop thrown is the TypeError of the conversion.\<close>

lemma loopBody_Inl: "loopBody config op i s = Inl (t, w') \<Longrightarrow> t = cannotConvert"
  by (auto simp: loopBody_def Let_def split: prod.splits outcome.splits if_splits
      dest: caught_Inl)

lemma runFrom_Inl: "runFrom config ops i s = Inl (t, w') \<Longrightarrow> t = cannotConvert"
proof (induction ops arbitrary: i s)
  case Nil
  then show ?case by simp
next
  case (Cons op ops)
  then show ?case
    by (cases "loopBody config op i s") (auto dest: loopBody_Inl)
qed

text \<open>Once the context is stopped, a turn of the loop keeps the value and stays stopped.\<close>

lemma loopBody_frozen:
  assumes "ctx_stopped ctx" and "loopBody config op i (v, ctx, w) = Inr (v', ctx', w')"
  shows "v' = v \<and> ctx_stopped ctx'"
  using assms
  by (auto simp: loopBody_def Let_def split: prod.splits outcome.splits if_splits
      dest!: caught_shape)

lemma runFrom_frozen:
  assumes "ctx_stopped ctx" and "runFrom config ops i (v, ctx, w) = Inr (v', ctx', w')"
  shows "v' = v \<and> ctx_stopped ctx'"
  using assms
proof (induction ops arbitrary: i ctx w)
  case Nil
  then show ?case by simp
next
  case (Cons op ops)
  from Cons.prems(2) obtain v1 c1 w1 where
    step: "loopBody config op i (v, ctx, w) = Inr (v1, c1, w1)"
    and rest: "runFrom config ops (Suc i) (v1, c1, w1) = Inr (v', ctx', w')"
    by (cases "loopBody config op i (v, ctx, w)") auto
  from loopBody_frozen [OF Cons.prems(1) step] have "v1 = v" "ctx_stopped c1" by simp_all
  with Cons.IH [of c1 "Suc i" w1] rest show ?case by simp
qed

text \<open>When every throw of the operators can be held, the loop runs to its end.\<close>

lemma loopBody_total:
  assumes "throwsConvertible op"
  shows "\<exists>s'. loopBody config op i s = Inr s'"
proof -
  obtain v ctx w where s: "s = (v, ctx, w)" by (metis prod_cases3)
  obtain out w1 where o: "op v (ctx\<lparr>ctx_index := i\<rparr>) w = (out, w1)"
    by (cases "op v (ctx\<lparr>ctx_index := i\<rparr>) w") auto
  show ?thesis
  proof (cases out)
    case (Throw e)
    with assms o obtain err where "toError e = Inr err"
      unfolding throwsConvertible_def by blast
    from caught_Inr [OF this, of config v "ctx\<lparr>ctx_index := i\<rparr>" w1] Throw o s show ?thesis
      by (simp add: loopBody_def Let_def)
  next
    case (Return r)
    with o s caught_Inr [OF toError_readOfNullish, of config r v "ctx\<lparr>ctx_index := i\<rparr>" w1]
    show ?thesis
      by (simp add: loopBody_def Let_def)
  qed
qed

lemma runFrom_total:
  assumes "list_all throwsConvertible ops"
  shows "\<exists>s'. runFrom config ops i s = Inr s'"
  using assms
proof (induction ops arbitrary: i s)
  case Nil
  show ?case by (cases s) simp
next
  case (Cons op ops)
  from Cons.prems have "throwsConvertible op" "list_all throwsConvertible ops" by simp_all
  from loopBody_total [OF this(1), of config i s] obtain s1 where
    "loopBody config op i s = Inr s1" by blast
  with Cons.IH [OF \<open>list_all throwsConvertible ops\<close>, of "Suc i" s1] show ?case by simp
qed

text \<open>An error in the context survives a turn of the loop, as some error.\<close>

lemma mergeResult_error_kept:
  "truthy (ctx_error ctx) \<Longrightarrow> truthy (ctx_error (mergeResult config r ctx))"
  by (simp add: mergeResult_def Let_def)

lemma loopBody_error_kept:
  assumes "truthy (ctx_error ctx)" and "loopBody config op i (v, ctx, w) = Inr (v', ctx', w')"
  shows "truthy (ctx_error ctx')"
  using assms
  by (auto simp: loopBody_def Let_def mergeResult_error_kept
      split: prod.splits outcome.splits if_splits dest!: caught_shape)

lemma runFrom_error_kept:
  assumes "truthy (ctx_error ctx)" and "runFrom config ops i (v, ctx, w) = Inr (v', ctx', w')"
  shows "truthy (ctx_error ctx')"
  using assms
proof (induction ops arbitrary: i v ctx w)
  case Nil
  then show ?case by simp
next
  case (Cons op ops)
  from Cons.prems(2) obtain v1 c1 w1 where
    step: "loopBody config op i (v, ctx, w) = Inr (v1, c1, w1)"
    and rest: "runFrom config ops (Suc i) (v1, c1, w1) = Inr (v', ctx', w')"
    by (cases "loopBody config op i (v, ctx, w)") auto
  from loopBody_error_kept [OF Cons.prems(1) step] have "truthy (ctx_error c1)" .
  from Cons.IH [OF this rest] show ?case .
qed

text \<open>A result without an error leaves the context's error and \<open>stopped\<close> alone.\<close>

lemma mergeResult_plain:
  assumes "\<not> truthy (getProp r ''error'')"
  shows "ctx_error (mergeResult config r ctx) = ctx_error ctx"
    and "ctx_stopped (mergeResult config r ctx) = ctx_stopped ctx"
  using assms by (simp_all add: mergeResult_def Let_def)

lemma loopBody_plain:
  assumes "pureNonStopping op f" and "\<not> ctx_stopped ctx"
  shows "\<exists>ctx'. loopBody config op i (v, ctx, w) = Inr (f v, ctx', w) \<and> \<not> ctx_stopped ctx' \<and>
           ctx_error ctx' = ctx_error ctx"
proof -
  from assms(1) obtain r where r: "op v (ctx\<lparr>ctx_index := i\<rparr>) w = (Return r, w)"
      "\<not> nullish r" "getProp r ''value'' = f v" "\<not> truthy (getProp r ''stopped'')"
      "\<not> truthy (getProp r ''error'')"
    unfolding pureNonStopping_def by blast
  with assms(2) show ?thesis
    by (simp add: loopBody_def Let_def mergeResult_plain)
qed

lemma runFrom_plain:
  assumes "list_all2 pureNonStopping ops fs" and "\<not> ctx_stopped ctx"
  shows "\<exists>ctx'. runFrom config ops i (v, ctx, w) = Inr (foldl (\<lambda>a f. f a) v fs, ctx', w) \<and>
           \<not> ctx_stopped ctx' \<and> ctx_error ctx' = ctx_error ctx"
  using assms
proof (induction ops fs arbitrary: i v ctx rule: list_all2_induct)
  case Nil
  then show ?case by simp
next
  case (Cons op ops f fs)
  from loopBody_plain [OF Cons.hyps(1) Cons.prems, of config i v w]
  obtain c1 where step: "loopBody config op i (v, ctx, w) = Inr (f v, c1, w)"
      and c1: "\<not> ctx_stopped c1" "ctx_error c1 = ctx_error ctx"
    by blast
  from Cons.IH [OF c1(1), of "Suc i" "f v"] c1(2) step show ?case by simp
qed



text \<open>What \<open>createPipe(v, config).pipe(...ops)\<close> holds.\<close>

lemma pipe_createPipe:
  "pipe_operators (pipe (createPipe v config) ops) = ops"
  "pipe_config (pipe (createPipe v config) ops) = mergeConfig (mergeConfig config)"
  "pipe_context (pipe (createPipe v config) ops) =
     \<lparr>ctx_value = v, ctx_stopped = False, ctx_error = JUndefined,
      ctx_metadata = [], ctx_index = 0, ctx_total = 1\<rparr>"
  by (simp_all add: pipe_def createPipe_def newPipe_def Let_def)

text \<open>\<open>execute\<close> of a chain cut in two: the loop over the first part, then over the rest.\<close>

lemma execute_split:
  assumes ops: "pipe_operators p = pre @ post"
      and pre: "runFrom (pipe_config p) pre 0 (startState p w0) = Inr s"
  shows "execute p w0 =
           (case runFrom (pipe_config p) post (length pre) s of
              Inl (e, w') \<Rightarrow> (Throw e, w')
            | Inr (v', ctx', w') \<Rightarrow>
                (Return (JObject [(''value'', v'), (''stopped'', JBool (ctx_stopped ctx')),
                             (''error'', ctx_error ctx'),
                             (''metadata'', JObject (ctx_metadata ctx'))]), w'))"
  using assms by (simp add: execute_def runFrom_append)

text \<open>\<open>map\<close> of a function that never returns a result wrapper is pure and non-stopping.\<close>

lemma map_op_pure:
  assumes "\<And>v. \<not> isPipeResult (f v)"
  shows "pureNonStopping (map_op (pureFn f)) f"
  using assms
  by (simp add: pureNonStopping_def map_op_def pureFn_def pipeResult_def spread_def)

lemma pureNonStopping_throwsConvertible: "pureNonStopping op f \<Longrightarrow> throwsConvertible op"
  unfolding pureNonStopping_def throwsConvertible_def
  by (metis outcome.distinct(1) prod.inject)


lemma not_isPipeResult_timesTwo: "\<not> isPipeResult (timesTwo v)"
  by (cases v) (simp_all add: isPipeResult_def)

lemma not_isPipeResult_plusOne: "\<not> isPipeResult (plusOne v)"
  by (cases v) (simp_all add: isPipeResult_def)


text \<open>A returned result object without an error leaves the context's error as it was.\<close>

lemma loopBody_no_error_result:
  assumes "op v (ctx\<lparr>ctx_index := i\<rparr>) w = (Return r, w1)"
      and "\<not> nullish r" and "\<not> truthy (getProp r ''error'')"
  shows "\<exists>v' c'. loopBody config op i (v, ctx, w) = Inr (v', c', w1) \<and> ctx_error c' = ctx_error ctx"
  using assms by (simp add: loopBody_def Let_def mergeResult_plain)

section \<open>Order preservation\<close>

text \<open>
  C1 (P1, order preservation). For every initial value \<open>v\<close>, every configuration and
  every list of pure, non-stopping operators with value functions \<open>f1, ..., fn\<close>,
  \<open>createPipe(v, config).pipe(op1, ..., opn).value()\<close> returns \<open>fn(...f2(f1(v)))\<close>:
  the functions applied from left to right, in the order the operators were added. It
  does not throw, writes no console line and leaves the world as it was.
\<close>

theorem order_preservation:
  assumes "list_all2 pureNonStopping ops fs"
  shows "valueOf (pipe (createPipe v config) ops) w = (Return (foldl (\<lambda>a f. f a) v fs), w, None)"
proof -
  let ?p = "pipe (createPipe v config) ops"
  have "\<not> ctx_stopped (pipe_context ?p)" by (simp add: pipe_createPipe)
  from runFrom_plain [OF assms this, of "pipe_config ?p" 0 v w]
  obtain c where run: "runFrom (pipe_config ?p) ops 0 (v, pipe_context ?p, w)
                        = Inr (foldl (\<lambda>a f. f a) v fs, c, w)"
      and c: "ctx_error c = ctx_error (pipe_context ?p)"
    by blast
  have "ctx_error c = JUndefined" using c by (simp add: pipe_createPipe)
  with run show ?thesis
    by (simp add: valueOf_def execute_def startState_def pipe_createPipe)
qed

text \<open>
  \<open>createPipe(5).pipe(map(x => x * 2), map(x => x + 1)).value()\<close> is \<open>11\<close>, not
  the \<open>12\<close> of the other order.
\<close>

theorem order_preservation_witness:
  "list_all2 pureNonStopping
     [map_op (pureFn timesTwo) :: unit operator, map_op (pureFn plusOne)] [timesTwo, plusOne] \<and>
   valueOf (pipe (createPipe (JNum 5) noConfig) [map_op (pureFn timesTwo), map_op (pureFn plusOne)]) ()
     = (Return (JNum 11), (), None)"
proof -
  have h: "list_all2 pureNonStopping
     [map_op (pureFn timesTwo) :: unit operator, map_op (pureFn plusOne)] [timesTwo, plusOne]"
    by (simp add: map_op_pure not_isPipeResult_timesTwo not_isPipeResult_plusOne)
  from order_preservation [OF h, of "JNum 5" noConfig "()"] h show ?thesis by simp
qed

section \<open>Stopping\<close>

text \<open>
  C2 (P2, stop freezes value). Take any pipe and any operator of its chain, with \<open>pre\<close>
  the operators before it and \<open>post\<close> those after it. If the loop reaches that operator
  with current value \<open>v\<close> and the operator returns a result whose \<open>stopped\<close> is set,
  then the result \<open>execute()\<close> returns has the value \<open>v\<close>, the value immediately
  before that operator's call, and \<open>stopped\<close> \<open>true\<close>, whatever the operators of
  \<open>post\<close> are. \<open>execute()\<close> does return that result, if every value an operator of
  \<open>post\<close> throws is an Error or a value \<open>String\<close> converts; the one other
  outcome it can have is the TypeError of that conversion, thrown from the \<open>catch\<close>
  clause.
\<close>

theorem stop_freezes_value:
  assumes "pipe_operators p = pre @ op # post"
      and "runFrom (pipe_config p) pre 0 (startState p w0) = Inr (v, ctx, w)"
      and "op v (ctx\<lparr>ctx_index := length pre\<rparr>) w = (Return r, w1)"
      and "truthy (getProp r ''stopped'')"
  shows "((\<exists>res w'. execute p w0 = (Return res, w') \<and> getProp res ''value'' = v \<and>
             getProp res ''stopped'' = JBool True) \<or>
          (\<exists>w'. execute p w0 = (Throw cannotConvert, w'))) \<and>
         (list_all throwsConvertible post \<longrightarrow>
            (\<exists>res w'. execute p w0 = (Return res, w') \<and> getProp res ''value'' = v \<and>
               getProp res ''stopped'' = JBool True))"
proof -
  let ?c1 = "ctx\<lparr>ctx_index := length pre, ctx_stopped := True\<rparr>"
  let ?R = "runFrom (pipe_config p) post (Suc (length pre)) (v, ?c1, w1)"
  have nn: "\<not> nullish r" using assms(4) by (cases r) simp_all
  have step: "loopBody (pipe_config p) op (length pre) (v, ctx, w) = Inr (v, ?c1, w1)"
    using assms(3,4) nn by (simp add: loopBody_def Let_def)
  have ex: "execute p w0 =
      (case ?R of
         Inl (e, w') \<Rightarrow> (Throw e, w')
       | Inr (v', ctx', w') \<Rightarrow>
           (Return (JObject [(''value'', v'), (''stopped'', JBool (ctx_stopped ctx')),
                             (''error'', ctx_error ctx'),
                             (''metadata'', JObject (ctx_metadata ctx'))]), w'))"
    using execute_split [OF assms(1) assms(2)] step by simp
  have ret: "\<exists>res w'. execute p w0 = (Return res, w') \<and> getProp res ''value'' = v \<and>
               getProp res ''stopped'' = JBool True" if "?R = Inr s'" for s'
  proof -
    obtain v' c' w' where s': "s' = (v', c', w')" by (metis prod_cases3)
    from runFrom_frozen [of ?c1 "pipe_config p" post "Suc (length pre)" v w1 v' c' w'] that s'
    have "v' = v" "ctx_stopped c'" by simp_all
    with ex that s' show ?thesis by simp
  qed
  have thr: "\<exists>w'. execute p w0 = (Throw cannotConvert, w')" if "?R = Inl t" for t
  proof -
    obtain e w' where t: "t = (e, w')" by (cases t) auto
    from runFrom_Inl [of "pipe_config p" post "Suc (length pre)" "(v, ?c1, w1)" e w'] that t
    have "e = cannotConvert" by simp
    with ex that t show ?thesis by simp
  qed
  have total: "\<exists>s'. ?R = Inr s'" if "list_all throwsConvertible post"
    using runFrom_total [OF that] by blast
  show ?thesis
  proof (cases ?R)
    case (Inl t)
    with thr total show ?thesis by auto
  next
    case (Inr s')
    with ret show ?thesis by blast
  qed
qed

text \<open>
  \<open>createPipe(5).pipe(map(x => x * 2), filter(x => x > 10), map(x => x + 1))\<close>:
  the filter stops at \<open>10\<close>, and \<open>10\<close> is the final value.
\<close>

theorem stop_freezes_value_witness:
  "pipe_operators (pipe (createPipe (JNum 5) noConfig)
      [map_op (pureFn timesTwo), filter_op (pureFn greaterThanTen), map_op (pureFn plusOne)] :: unit Pipe)
     = [map_op (pureFn timesTwo)] @ filter_op (pureFn greaterThanTen) # [map_op (pureFn plusOne)] \<and>
   list_all throwsConvertible [map_op (pureFn plusOne) :: unit operator] \<and>
   (\<exists>res w'. execute (pipe (createPipe (JNum 5) noConfig)
      [map_op (pureFn timesTwo), filter_op (pureFn greaterThanTen), map_op (pureFn plusOne)]) ()
        = (Return res, w') \<and> getProp res ''value'' = JNum 10 \<and> getProp res ''stopped'' = JBool True)"
proof -
  let ?p = "pipe (createPipe (JNum 5) noConfig)
      [map_op (pureFn timesTwo), filter_op (pureFn greaterThanTen), map_op (pureFn plusOne)] :: unit Pipe"
  let ?ctx = "\<lparr>ctx_value = JNum 5, ctx_stopped = False, ctx_error = JUndefined,
      ctx_metadata = [], ctx_index = 0, ctx_total = 1\<rparr>"
  let ?r = "JObject [(''value'', JNum 10), (''stopped'', JBool True), (''debugName'', JStr ''filter / stop'')]"
  have a: "pipe_operators ?p
     = [map_op (pureFn timesTwo)] @ filter_op (pureFn greaterThanTen) # [map_op (pureFn plusOne)]"
    by (simp add: pipe_createPipe)
  have b: "runFrom (pipe_config ?p) [map_op (pureFn timesTwo)] 0 (startState ?p ())
             = Inr (JNum 10, ?ctx, ())"
    by (simp add: pipe_createPipe startState_def loopBody_def map_op_def pureFn_def
        isPipeResult_def pipeResult_def spread_def mergeResult_def Let_def)
  have c: "filter_op (pureFn greaterThanTen) (JNum 10)
             (?ctx\<lparr>ctx_index := length [map_op (pureFn timesTwo) :: unit operator]\<rparr>) ()
             = (Return ?r, ())"
    by (simp add: filter_op_def pureFn_def isPipeResult_def stop_def pipeResult_def spread_def)
  have d: "truthy (getProp ?r ''stopped'')" by simp
  have e: "list_all throwsConvertible [map_op (pureFn plusOne) :: unit operator]"
    by (simp add: pureNonStopping_throwsConvertible [OF map_op_pure] not_isPipeResult_plusOne)
  from stop_freezes_value [OF a b c d] a e show ?thesis by simp
qed




section \<open>Errors\<close>




text \<open>
  C5 (P5, catch recovery), at \<open>createPipe(5).pipe(map(() => { throw new Error("boom") }),
  catchError(() => 42))\<close> under the default policy. \<open>catchError\<close> is called on the
  stopped context, calls the handler and returns \<open>{ value: 42, error: undefined,
  stopped: false }\<close>; the loop, finding the context stopped, puts the old value back
  and merges nothing. \<open>execute()\<close> returns value \<open>5\<close>, stopped, error
  \<open>Error("boom")\<close>, and \<open>value()\<close> logs the message and returns
  \<open>undefined\<close>, not the handler's \<open>42\<close>.
\<close>

theorem catch_recovery_lost_under_stop:
  "valueOf (pipe (createPipe (JNum 5) noConfig) [map_op boom, catchError (Some (pureFn fortyTwo))]) ()
     = (Return JUndefined, (), Some [JStr ''error'', JStr ''boom'']) \<and>
   execute (pipe (createPipe (JNum 5) noConfig) [map_op boom, catchError (Some (pureFn fortyTwo))]) ()
     = (Return (JObject [(''value'', JNum 5), (''stopped'', JBool True),
                         (''error'', JError ''boom''), (''metadata'', JObject [])]), ()) \<and>
   catchError (Some (pureFn fortyTwo)) (JNum 5)
       \<lparr>ctx_value = JNum 5, ctx_stopped = True, ctx_error = JError ''boom'',
        ctx_metadata = [], ctx_index = 1, ctx_total = 1\<rparr> ()
     = (Return (JObject [(''value'', JNum 42), (''debugName'', JStr ''catchError''),
                         (''error'', JUndefined), (''stopped'', JBool False)]), ())"
  by (simp add: valueOf_def execute_def pipe_createPipe startState_def loopBody_def map_op_def
      boom_def catchError_def pureFn_def fortyTwo_def isPipeResult_def pipeResult_def spread_def
      mergeResult_def caught_def catchClause_def toError_def Let_def mergeConfig_def noConfig_def)

text \<open>
  C9. Within one run of \<open>execute()\<close>, once the context's error is set it stays set:
  if the loop reaches some point of the chain with an error in the context, the result
  \<open>execute()\<close> returns has an error, whatever operators follow. \<open>execute()\<close> does
  return that result, if every value a later operator throws is an Error or a value
  \<open>String\<close> converts; the one other outcome it can have is the TypeError of that
  conversion, thrown from the \<open>catch\<close> clause. And at that point no returned result
  object whose own error is not set (such as the \<open>{ error: undefined, stopped: false }\<close>
  of \<open>catchError\<close>) changes the context's error: after the turn it is the error
  it was.
\<close>

theorem error_never_cleared:
  assumes "pipe_operators p = pre @ post"
      and "runFrom (pipe_config p) pre 0 (startState p w0) = Inr (v, ctx, w)"
      and "truthy (ctx_error ctx)"
  shows "((\<exists>res w'. execute p w0 = (Return res, w') \<and> truthy (getProp res ''error'')) \<or>
          (\<exists>w'. execute p w0 = (Throw cannotConvert, w'))) \<and>
         (list_all throwsConvertible post \<longrightarrow>
            (\<exists>res w'. execute p w0 = (Return res, w') \<and> truthy (getProp res ''error''))) \<and>
         (\<forall>op i r w1. op v (ctx\<lparr>ctx_index := i\<rparr>) w = (Return r, w1) \<and> \<not> nullish r \<and>
              \<not> truthy (getProp r ''error'') \<longrightarrow>
            (\<exists>v' c'. loopBody (pipe_config p) op i (v, ctx, w) = Inr (v', c', w1) \<and>
               ctx_error c' = ctx_error ctx))"
proof -
  let ?R = "runFrom (pipe_config p) post (length pre) (v, ctx, w)"
  have ex: "execute p w0 =
      (case ?R of
         Inl (e, w') \<Rightarrow> (Throw e, w')
       | Inr (v', ctx', w') \<Rightarrow>
           (Return (JObject [(''value'', v'), (''stopped'', JBool (ctx_stopped ctx')),
                             (''error'', ctx_error ctx'),
                             (''metadata'', JObject (ctx_metadata ctx'))]), w'))"
    using execute_split [OF assms(1) assms(2)] by simp
  have ret: "\<exists>res w'. execute p w0 = (Return res, w') \<and> truthy (getProp res ''error'')"
    if "?R = Inr s'" for s'
  proof -
    obtain v' c' w' where s': "s' = (v', c', w')" by (metis prod_cases3)
    from runFrom_error_kept [OF assms(3)] that s' have "truthy (ctx_error c')" by simp
    with ex that s' show ?thesis by simp
  qed
  have thr: "\<exists>w'. execute p w0 = (Throw cannotConvert, w')" if "?R = Inl t" for t
  proof -
    obtain e w' where t: "t = (e, w')" by (cases t) auto
    from runFrom_Inl [of "pipe_config p" post "length pre" "(v, ctx, w)" e w'] that t
    have "e = cannotConvert" by simp
    with ex that t show ?thesis by simp
  qed
  have total: "\<exists>s'. ?R = Inr s'" if "list_all throwsConvertible post"
    using runFrom_total [OF that] by blast
  have first: "(\<exists>res w'. execute p w0 = (Return res, w') \<and> truthy (getProp res ''error'')) \<or>
          (\<exists>w'. execute p w0 = (Throw cannotConvert, w'))"
    using ret thr by (cases ?R) blast+
  have second: "list_all throwsConvertible post \<longrightarrow>
            (\<exists>res w'. execute p w0 = (Return res, w') \<and> truthy (getProp res ''error''))"
    using total ret by blast
  have third: "\<forall>op i r w1. op v (ctx\<lparr>ctx_index := i\<rparr>) w = (Return r, w1) \<and> \<not> nullish r \<and>
              \<not> truthy (getProp r ''error'') \<longrightarrow>
            (\<exists>v' c'. loopBody (pipe_config p) op i (v, ctx, w) = Inr (v', c', w1) \<and>
               ctx_error c' = ctx_error ctx)"
  proof (intro allI impI, elim conjE)
    fix op :: "'a operator" and i r w1
    assume "op v (ctx\<lparr>ctx_index := i\<rparr>) w = (Return r, w1)" "\<not> nullish r"
      "\<not> truthy (getProp r ''error'')"
    then show "\<exists>v' c'. loopBody (pipe_config p) op i (v, ctx, w) = Inr (v', c', w1) \<and>
               ctx_error c' = ctx_error ctx"
      by (rule loopBody_no_error_result)
  qed
  from first second third show ?thesis by blast
qed

text \<open>
  Under \<open>"continue"\<close> the handler of \<open>catchError\<close> gives the value, and the error
  of the throwing \<open>map\<close> is still in the result.
\<close>

theorem error_never_cleared_witness:
  "list_all throwsConvertible [catchError (Some (pureFn fortyTwo)) :: unit operator] \<and>
   (\<exists>res w'. execute (pipe (createPipe (JNum 5) continueConfig)
                 [map_op boom, catchError (Some (pureFn fortyTwo))] :: unit Pipe) ()
             = (Return res, w') \<and> truthy (getProp res ''error'')) \<and>
   execute (pipe (createPipe (JNum 5) continueConfig)
                 [map_op boom, catchError (Some (pureFn fortyTwo))] :: unit Pipe) ()
     = (Return (JObject [(''value'', JNum 42), (''stopped'', JBool False),
                         (''error'', JError ''boom''), (''metadata'', JObject [])]), ())"
proof -
  let ?p = "pipe (createPipe (JNum 5) continueConfig)
                 [map_op boom, catchError (Some (pureFn fortyTwo))] :: unit Pipe"
  let ?ctx = "\<lparr>ctx_value = JNum 5, ctx_stopped = False, ctx_error = JError ''boom'',
      ctx_metadata = [], ctx_index = 0, ctx_total = 1\<rparr>"
  have a: "pipe_operators ?p = [map_op boom] @ [catchError (Some (pureFn fortyTwo))]"
    by (simp add: pipe_createPipe)
  have b: "runFrom (pipe_config ?p) [map_op boom] 0 (startState ?p ()) = Inr (JNum 5, ?ctx, ())"
    by (simp add: pipe_createPipe startState_def loopBody_def map_op_def boom_def caught_def
        catchClause_def toError_def Let_def mergeConfig_def continueConfig_def)
  have c: "truthy (ctx_error ?ctx)" by simp
  have t: "list_all throwsConvertible [catchError (Some (pureFn fortyTwo)) :: unit operator]"
    by (simp add: throwsConvertible_def catchError_def pureFn_def fortyTwo_def isPipeResult_def)
  have e: "execute ?p ()
     = (Return (JObject [(''value'', JNum 42), (''stopped'', JBool False),
                         (''error'', JError ''boom''), (''metadata'', JObject [])]), ())"
    by (simp add: execute_def pipe_createPipe startState_def loopBody_def map_op_def
      boom_def catchError_def pureFn_def fortyTwo_def isPipeResult_def pipeResult_def spread_def
      mergeResult_def caught_def catchClause_def toError_def Let_def mergeConfig_def
      continueConfig_def)
  from error_never_cleared [where p = ?p and pre = "[map_op boom]"
      and post = "[catchError (Some (pureFn fortyTwo))]", OF a b c] t e
  show ?thesis by simp
qed

section \<open>Terminal consumption\<close>

text \<open>
  C6, as the specification states it: \<open>value()\<close> never throws, and \<open>toPromise()\<close>
  rejects exactly when the result's error is set. In
  \<open>createPipe(5).pipe(map(() => { throw { toString: 5 } }))\<close> \<open>execute()\<close> throws
  the TypeError of the conversion, and \<open>value()\<close>, which calls it outside any
  \<open>try\<close>, throws it too. In
  \<open>createPipe(5).pipe(map(async () => { throw new Error("boom") }))\<close> the result has
  no error and a rejected promise as its value; \<open>toPromise()\<close> returns that value
  from an \<open>async\<close> method, so its promise rejects.
\<close>

theorem value_throws_and_promise_adopts:
  "fst (valueOf (pipe (createPipe (JNum 5) noConfig)
                   [map_op (throwing (JObject [(''toString'', JNum 5)]))]) ())
     = Throw cannotConvert \<and>
   execute (pipe (createPipe (JNum 5) noConfig) [map_op asyncBoom]) ()
     = (Return (JObject [(''value'', JPromise (Rejected (JError ''boom''))),
                         (''stopped'', JBool False), (''error'', JUndefined),
                         (''metadata'', JObject [])]), ()) \<and>
   toPromise (pipe (createPipe (JNum 5) noConfig) [map_op asyncBoom]) ()
     = (Rejected (JError ''boom''), ())"
  by (simp add: valueOf_def toPromise_def execute_def pipe_createPipe startState_def loopBody_def
      map_op_def throwing_def asyncBoom_def isPipeResult_def pipeResult_def spread_def
      mergeResult_def caught_def catchClause_def toError_def Let_def mergeConfig_def noConfig_def)

text \<open>
  C6, amended. \<open>execute()\<close> returns a result if every value an operator throws is an
  Error or a value \<open>String\<close> converts. Whenever \<open>execute()\<close> returns a result
  \<open>res\<close>, \<open>value()\<close> returns as well. When the error of \<open>res\<close> is set,
  \<open>toPromise()\<close> rejects with it, and \<open>value()\<close> under the \<open>"stop"\<close>
  policy writes the console line \<open>"error", message\<close> and returns \<open>undefined\<close>
  (under another policy it returns the value). When the error is not set, \<open>value()\<close>
  returns the value of \<open>res\<close>, and \<open>toPromise()\<close> resolves with it, or, when
  the value is itself a promise, settles as that promise does.
\<close>

theorem consumption_asymmetry:
  "(list_all throwsConvertible (pipe_operators p) \<longrightarrow> (\<exists>res w'. execute p w = (Return res, w'))) \<and>
   (\<forall>res w'. execute p w = (Return res, w') \<longrightarrow>
      (\<exists>r l. valueOf p w = (Return r, w', l)) \<and>
      (if truthy (getProp res ''error'')
       then toPromise p w = (Rejected (getProp res ''error''), w') \<and>
            (errorHandling (pipe_config p) = Some Stop \<longrightarrow>
               valueOf p w = (Return JUndefined, w',
                              Some [JStr ''error'', getProp (getProp res ''error'') ''message''])) \<and>
            (errorHandling (pipe_config p) \<noteq> Some Stop \<longrightarrow>
               valueOf p w = (Return (getProp res ''value''), w', None))
       else toPromise p w
              = (case getProp res ''value'' of JPromise s \<Rightarrow> s | x \<Rightarrow> Resolved x, w') \<and>
            valueOf p w = (Return (getProp res ''value''), w', None)))"
proof -
  have total: "\<exists>res w'. execute p w = (Return res, w')"
    if "list_all throwsConvertible (pipe_operators p)"
  proof -
    from runFrom_total [OF that, of "pipe_config p" 0 "startState p w"]
    obtain s' where "runFrom (pipe_config p) (pipe_operators p) 0 (startState p w) = Inr s'"
      by blast
    then show ?thesis by (cases s') (simp add: execute_def)
  qed
  have ad: "adopt x = (case x of JPromise s \<Rightarrow> s | y \<Rightarrow> Resolved y)" for x
    by (cases x) simp_all
  have rest: "(\<exists>r l. valueOf p w = (Return r, w', l)) \<and>
      (if truthy (getProp res ''error'')
       then toPromise p w = (Rejected (getProp res ''error''), w') \<and>
            (errorHandling (pipe_config p) = Some Stop \<longrightarrow>
               valueOf p w = (Return JUndefined, w',
                              Some [JStr ''error'', getProp (getProp res ''error'') ''message''])) \<and>
            (errorHandling (pipe_config p) \<noteq> Some Stop \<longrightarrow>
               valueOf p w = (Return (getProp res ''value''), w', None))
       else toPromise p w
              = (case getProp res ''value'' of JPromise s \<Rightarrow> s | x \<Rightarrow> Resolved x, w') \<and>
            valueOf p w = (Return (getProp res ''value''), w', None))"
    if "execute p w = (Return res, w')" for res w'
    using that by (simp add: valueOf_def toPromise_def ad)
  from total rest show ?thesis by blast
qed

text \<open>
  \<open>createPipe(5).pipe(map(() => { throw new Error("boom") }))\<close>: \<open>value()\<close>
  returns \<open>undefined\<close> and logs, \<open>toPromise()\<close> rejects with the error.
\<close>

theorem consumption_asymmetry_witness:
  "list_all throwsConvertible (pipe_operators (pipe (createPipe (JNum 5) noConfig) [map_op boom] :: unit Pipe)) \<and>
   valueOf (pipe (createPipe (JNum 5) noConfig) [map_op boom] :: unit Pipe) ()
     = (Return JUndefined, (), Some [JStr ''error'', JStr ''boom'']) \<and>
   toPromise (pipe (createPipe (JNum 5) noConfig) [map_op boom] :: unit Pipe) ()
     = (Rejected (JError ''boom''), ())"
proof -
  let ?p = "pipe (createPipe (JNum 5) noConfig) [map_op boom] :: unit Pipe"
  have t: "list_all throwsConvertible (pipe_operators ?p)"
    by (auto simp: pipe_createPipe throwsConvertible_def map_op_def boom_def toError_def)
  have e: "execute ?p () = (Return (JObject [(''value'', JNum 5), (''stopped'', JBool True),
                         (''error'', JError ''boom''), (''metadata'', JObject [])]), ())"
    by (simp add: execute_def pipe_createPipe startState_def loopBody_def map_op_def
      boom_def caught_def catchClause_def toError_def Let_def mergeConfig_def noConfig_def)
  have d: "errorHandling (pipe_config ?p) = Some Stop"
    by (simp add: pipe_createPipe mergeConfig_def noConfig_def)
  from consumption_asymmetry [of ?p "()"] t e d show ?thesis by auto
qed

section \<open>Filter\<close>

text \<open>
  C7, as the specification states it: \<open>createPipe(5).pipe(filter(x => x > 10)).value()\<close>
  is \<open>undefined\<close> and \<open>.execute().stopped\<close> is \<open>true\<close>. The first half
  fails: the chain is stopped, but no error is set, so \<open>value()\<close> returns the value.
\<close>

theorem filter_value_is_not_undefined:
  "fst (valueOf (pipe (createPipe (JNum 5) noConfig) [filter_op (pureFn greaterThanTen)]) ())
     \<noteq> Return JUndefined"
  by (simp add: valueOf_def execute_def pipe_createPipe startState_def loopBody_def filter_op_def
      pureFn_def isPipeResult_def stop_def pipeResult_def spread_def
      mergeResult_def Let_def mergeConfig_def noConfig_def)

text \<open>
  C7, amended: \<open>createPipe(5).pipe(filter(x => x > 10)).value()\<close> is \<open>5\<close>, the
  value the chain was stopped at, with no console line; \<open>.execute()\<close> returns value
  \<open>5\<close>, \<open>stopped\<close> \<open>true\<close> and no error.
\<close>

theorem filter_scenario:
  "valueOf (pipe (createPipe (JNum 5) noConfig) [filter_op (pureFn greaterThanTen)]) ()
     = (Return (JNum 5), (), None) \<and>
   execute (pipe (createPipe (JNum 5) noConfig) [filter_op (pureFn greaterThanTen)]) ()
     = (Return (JObject [(''value'', JNum 5), (''stopped'', JBool True),
                         (''error'', JUndefined), (''metadata'', JObject [])]), ())"
  by (simp add: valueOf_def execute_def pipe_createPipe startState_def loopBody_def filter_op_def
      pureFn_def isPipeResult_def stop_def pipeResult_def spread_def
      mergeResult_def Let_def mergeConfig_def noConfig_def)

text \<open>
  C10. When the predicate returns a bare boolean, the operator \<open>filter(predicate)\<close>
  returns a stopped result carrying the input value, whether the boolean is \<open>true\<close> or
  \<open>false\<close>: a boolean is not an object, so \<open>isPipeResult\<close> fails on it and the
  passing branch is not taken.
\<close>

theorem filter_bare_boolean_stops:
  assumes "predicate v w = (Return (JBool b), w')"
  shows "\<exists>r. filter_op predicate v context w = (Return r, w') \<and>
           getProp r ''stopped'' = JBool True \<and> getProp r ''value'' = v"
  using assms
  by (simp add: filter_op_def isPipeResult_def stop_def pipeResult_def spread_def)

text \<open>\<open>filter(x => x > 10)\<close> on \<open>50\<close>: the predicate is true, the result is stopped.\<close>

theorem filter_bare_boolean_stops_witness:
  "pureFn greaterThanTen (JNum 50) () = (Return (JBool True), ()) \<and>
   (\<exists>r. filter_op (pureFn greaterThanTen) (JNum 50)
           \<lparr>ctx_value = JNum 50, ctx_stopped = False, ctx_error = JUndefined,
            ctx_metadata = [], ctx_index = 0, ctx_total = 1\<rparr> ()
         = (Return r, ()) \<and>
         getProp r ''stopped'' = JBool True \<and> getProp r ''value'' = JNum 50)"
proof -
  have a: "pureFn greaterThanTen (JNum 50) () = (Return (JBool True), ())"
    by (simp add: pureFn_def)
  from filter_bare_boolean_stops [where predicate = "pureFn greaterThanTen", OF a] a
  show ?thesis by simp
qed

section \<open>Retry\<close>

text \<open>
  C8, at an operator that throws on its first call and returns on every later one, the
  world counting its calls. Under \<open>{ errorHandling: "retry", maxRetries: 3 }\<close>
  \<open>execute()\<close> calls it once: the world is \<open>1\<close>, the error is in the result and
  \<open>stopped\<close> is \<open>false\<close>. With the operator \<open>retry(3)\<close> after it, under
  \<open>"retry"\<close> or under the default policy, the count is still \<open>1\<close>. In
  pipe-operators.ts, \<open>createPipe(5).map(flaky)\<close> calls it once and
  \<open>.retry(3)\<close> on the stopped manager clears \<open>stopped\<close> and the error without
  calling anything.
\<close>

theorem retry_runs_failing_step_once:
  "execute (pipe (createPipe (JNum 5) retryConfig) [map_op flaky]) 0
     = (Return (JObject [(''value'', JNum 5), (''stopped'', JBool False),
                         (''error'', JError ''boom''), (''metadata'', JObject [])]), 1) \<and>
   execute (pipe (createPipe (JNum 5) retryConfig) [map_op flaky, retry 3]) 0
     = (Return (JObject [(''value'', JNum 5), (''stopped'', JBool False),
                         (''error'', JError ''boom''), (''metadata'', JObject [])]), 1) \<and>
   execute (pipe (createPipe (JNum 5) noConfig) [map_op flaky, retry 3]) 0
     = (Return (JObject [(''value'', JNum 5), (''stopped'', JBool True),
                         (''error'', JError ''boom''), (''metadata'', JObject [])]), 1) \<and>
   manager_map (manager_createPipe (JNum 5)) flaky 0
     = (Inr \<lparr>mc_value = JNum 5, mc_stopped = True, mc_error = JError ''boom'', mc_metadata = None\<rparr>, 1) \<and>
   manager_retry
       \<lparr>mc_value = JNum 5, mc_stopped = True, mc_error = JError ''boom'', mc_metadata = None\<rparr> 3
     = \<lparr>mc_value = JNum 5, mc_stopped = False, mc_error = JUndefined, mc_metadata = None\<rparr>"
  by (simp add: execute_def pipe_createPipe startState_def loopBody_def map_op_def flaky_def
      retry_def pipeResult_def spread_def mergeResult_def caught_def catchClause_def toError_def
      Let_def mergeConfig_def noConfig_def retryConfig_def manager_map_def manager_createPipe_def)

end
